theory Spec2Isabelle
  imports Main "HOL-Library.Word"
begin

unbundle bit_operations_syntax

section \<open>Data model\<close>

text \<open>
  The embedding follows \<^verbatim>\<open>src/injector/injector.py\<close> (class \<^verbatim>\<open>DLLInjector\<close>) and the
  decorator \<^verbatim>\<open>log_exceptions\<close> of \<^verbatim>\<open>src/injector/logging_utils.py\<close>.

  A Python \<^verbatim>\<open>str\<close> is a list of code points, \<^verbatim>\<open>bytes\<close> a list of 8-bit words, a Python
  \<^verbatim>\<open>int\<close> an \<open>int\<close>.
\<close>

type_synonym pystr = "nat list"
type_synonym bytes = "8 word list"

definition py :: "string \<Rightarrow> pystr" where
  "py lit = map of_char lit"

text \<open>
  Messages are f-strings. They are kept as the list of their parts, so that no number
  formatting has to be modelled: \<open>Lit\<close> is literal text, \<open>Str\<close> a string value
  (\<^verbatim>\<open>{dll_path}\<close>), \<open>Dec\<close> an integer printed by default (\<^verbatim>\<open>{error_code}\<close>), \<open>Hex08\<close> an
  integer printed with \<^verbatim>\<open>:08x\<close>. The other parts are the texts of exceptions that the
  Python library raises: \<open>CodecText u i\<close> of the \<^verbatim>\<open>UnicodeEncodeError\<close> of the \<^verbatim>\<open>ascii\<close>
  codec for the string \<open>u\<close> at position \<open>i\<close>, \<open>DigitsText n\<close> of the \<^verbatim>\<open>ValueError\<close> for an
  integer of more than \<open>n\<close> decimal digits, \<open>ConvertText i\<close> of the \<^verbatim>\<open>ctypes.ArgumentError\<close>
  for argument \<open>i\<close>, \<open>OverwriteText\<close> of the \<^verbatim>\<open>KeyError\<close> of \<^verbatim>\<open>logging\<close>.
\<close>

datatype piece =
    Lit string | Str pystr | Dec int | Hex08 int
  | CodecText pystr nat | DigitsText nat | ConvertText nat | OverwriteText

type_synonym msg = "piece list"

datatype exn =
    DLLInjectionError msg
  | ProcessAccessError msg
  | MemoryAllocationError msg
  | FileNotFoundError msg
  | UnicodeEncodeError pystr nat
  | ValueError msg
  | ArgumentError nat
  | KeyError exn

text \<open>
  \<open>ArgumentError i\<close> is \<^verbatim>\<open>ctypes.ArgumentError\<close> for the \<open>i\<close>-th argument of a call.
  \<open>KeyError e\<close> is the \<^verbatim>\<open>KeyError\<close> that \<^verbatim>\<open>logging\<close> raises while the exception \<open>e\<close> is being
  handled: \<open>e\<close> is its \<^verbatim>\<open>__context__\<close>.
\<close>

fun str_exn :: "exn \<Rightarrow> msg" where
  "str_exn (DLLInjectionError m) = m"
| "str_exn (ProcessAccessError m) = m"
| "str_exn (MemoryAllocationError m) = m"
| "str_exn (FileNotFoundError m) = m"
| "str_exn (UnicodeEncodeError u i) = [CodecText u i]"
| "str_exn (ValueError m) = m"
| "str_exn (ArgumentError i) = [ConvertText i]"
| "str_exn (KeyError e) = [OverwriteText]"

text \<open>
  \<^verbatim>\<open>s.encode("ascii")\<close> raises \<^verbatim>\<open>UnicodeEncodeError\<close> at the first code point that is not
  below 128; \<^verbatim>\<open>b.decode("ascii", errors="replace")\<close> never raises and puts U+FFFD for
  every byte that is not below 128.
\<close>

definition is_ascii :: "pystr \<Rightarrow> bool" where
  "is_ascii u = list_all (\<lambda>c. c < 128) u"

definition first_non_ascii :: "pystr \<Rightarrow> nat" where
  "first_non_ascii u = length (takeWhile (\<lambda>c. c < 128) u)"

definition encode_ascii :: "pystr \<Rightarrow> exn + bytes" where
  "encode_ascii u =
     (if is_ascii u then Inr (map of_nat u)
      else Inl (UnicodeEncodeError u (first_non_ascii u)))"

definition decode_ascii_replace :: "bytes \<Rightarrow> pystr" where
  "decode_ascii_replace b = map (\<lambda>x. if unat x < 128 then unat x else 0xFFFD) b"

subsection \<open>The operating system\<close>

text \<open>
  \<^verbatim>\<open>windll.kernel32\<close> is outside the repository: it is a parameter of the model. A call is
  recorded with the arguments the source passes. \<^verbatim>\<open>None\<close> and \<^verbatim>\<open>self.proc_handle\<close> are
  \<open>int option\<close>; \<^verbatim>\<open>c_int(x)\<close> and \<^verbatim>\<open>c_long(x)\<close> are 32-bit on Windows and wrap silently, they are
  recorded by their \<^verbatim>\<open>.value\<close>. Out parameters (\<^verbatim>\<open>buf\<close>, \<^verbatim>\<open>byref(exit_code)\<close>) are not arguments
  of the recorded call: what the system stores through them is part of its reply.
\<close>

text \<open>
  An argument that is a bare Python \<^verbatim>\<open>int\<close> is converted by ctypes as a C \<^verbatim>\<open>long\<close>, signed or
  unsigned, which has 32 bits on Windows: outside the range from \<open>- 2 ^ 31\<close> to
  \<open>2 ^ 32 - 1\<close> the call raises \<^verbatim>\<open>ctypes.ArgumentError\<close> and nothing is called. Inside the
  range the call is recorded with the Python value. Values that kernel32 returned are in
  the range, and so is \<^verbatim>\<open>self.proc_handle\<close>, which is only ever \<^verbatim>\<open>None\<close> or such a value.
\<close>

definition in_c_range :: "int \<Rightarrow> bool" where
  "in_c_range x = (- (2 ^ 31) \<le> x \<and> x < 2 ^ 32)"

definition c_int :: "int \<Rightarrow> int" where
  "c_int x = sint (word_of_int x :: 32 word)"

definition c_long :: "int \<Rightarrow> int" where
  "c_long x = sint (word_of_int x :: 32 word)"

datatype call =
    OpenProcess int int int
  | CloseHandle "int option"
  | GetLastError
  | VirtualAllocEx "int option" "int option" int int int
  | VirtualFreeEx "int option" int int int
  | GetModuleHandleA bytes
  | GetProcAddress int bytes
  | CreateRemoteThread "int option" "int option" "int option" int int "int option" "int option"
  | WaitForSingleObject int int
  | GetExitCodeThread int
  | ReadProcessMemory "int option" int int "int option"
  | WriteProcessMemory "int option" int bytes int "int option"
  | LoadLibraryA bytes
  | FreeLibrary int

text \<open>
  No \<^verbatim>\<open>restype\<close> is set anywhere in the source, so ctypes converts every return value as a C
  \<^verbatim>\<open>int\<close>: the reply carries a 32-bit word, which Python sees as the signed integer
  \<open>py_int\<close>.
\<close>

datatype out_param = NoOut | OutBuf bytes | OutLong "32 word"

datatype reply = Reply (ret: "32 word") (out: out_param)

definition py_int :: "reply \<Rightarrow> int" where
  "py_int r = sint (ret r)"

text \<open>
  \<open>max_str_digits\<close> is the interpreter's limit on the decimal digits of an integer that
  is converted to a string (\<^verbatim>\<open>sys.get_int_max_str_digits()\<close>, 4300 by default, 0 for no limit
  and on interpreters without it; a limit is never below 640).
\<close>

record 'w env =
  kernel32 :: "call \<Rightarrow> 'w \<Rightarrow> reply \<times> 'w"
  path_exists :: "pystr \<Rightarrow> 'w \<Rightarrow> bool"
  max_str_digits :: nat

text \<open>
  \<^verbatim>\<open>f"{x}"\<close> for an integer \<open>x\<close> raises \<^verbatim>\<open>ValueError\<close> when \<open>x\<close> has more digits than the limit;
  \<^verbatim>\<open>f"{x:08x}"\<close> never does. Integers of 32 bits are always printable.
\<close>

definition printable :: "'w env \<Rightarrow> int \<Rightarrow> bool" where
  "printable E x = (max_str_digits E = 0 \<or> \<bar>x\<bar> < 10 ^ max (max_str_digits E) 640)"

definition digits_error :: "'w env \<Rightarrow> exn" where
  "digits_error E = ValueError [DigitsText (max_str_digits E)]"

text \<open>The smallest positive integer that is not printable when there is a limit.\<close>

definition too_long :: "'w env \<Rightarrow> int" where
  "too_long E = 10 ^ max (max_str_digits E) 640"

subsection \<open>The injector and its world\<close>

datatype logger_name = Logger | SecurityLogger

datatype level = DEBUG | INFO | WARNING | ERROR

text \<open>
  \<open>process_id\<close> (a \<^verbatim>\<open>c_ulong\<close>) and \<open>proc_handle\<close> are the fields of \<^verbatim>\<open>DLLInjector\<close>;
  \<open>os_world\<close> is the state of the operating system, \<open>calls\<close> the kernel32 calls made so
  far with their replies, \<open>logs\<close> the calls made to the two loggers.
\<close>

record 'w injector =
  process_id :: "32 word"
  proc_handle :: "int option"
  os_world :: 'w
  calls :: "(call \<times> reply) list"
  logs :: "(logger_name \<times> level \<times> msg) list"

type_synonym ('w, 'a) action = "'w injector \<Rightarrow> (exn + 'a) \<times> 'w injector"

text \<open>\<^verbatim>\<open>if self.proc_handle:\<close> is false for \<^verbatim>\<open>None\<close> and for 0.\<close>

fun truthy :: "int option \<Rightarrow> bool" where
  "truthy None = False"
| "truthy (Some h) = (h \<noteq> 0)"

definition log :: "logger_name \<Rightarrow> level \<Rightarrow> msg \<Rightarrow> 'w injector \<Rightarrow> 'w injector" where
  "log name lvl m s = s\<lparr>logs := logs s @ [(name, lvl, m)]\<rparr>"

definition k32 :: "'w env \<Rightarrow> call \<Rightarrow> 'w injector \<Rightarrow> reply \<times> 'w injector" where
  "k32 E c s =
     (let (r, w') = kernel32 E c (os_world s)
      in (r, s\<lparr>os_world := w', calls := calls s @ [(c, r)]\<rparr>))"

text \<open>
  The decorator \<^verbatim>\<open>log_exceptions(logger)\<close>. Its \<^verbatim>\<open>except\<close> block calls \<^verbatim>\<open>logger.error\<close> with
  \<^verbatim>\<open>extra={..., "args": args, ...}\<close>. \<^verbatim>\<open>args\<close> is an attribute of every log record, so
  \<^verbatim>\<open>Logger.makeRecord\<close> raises \<^verbatim>\<open>KeyError\<close> before a record is written (the level \<^verbatim>\<open>ERROR\<close> is
  enabled: the module logger is set to \<^verbatim>\<open>INFO\<close>). The \<^verbatim>\<open>raise\<close> that follows is not reached:
  every exception that leaves a decorated method is this \<^verbatim>\<open>KeyError\<close>, with the exception
  that was being handled as its context.
\<close>

definition log_exceptions :: "('w, 'a) action \<Rightarrow> ('w, 'a) action" where
  "log_exceptions func s =
     (case func s of
        (Inl e, s') \<Rightarrow> (Inl (KeyError e), s')
      | (Inr v, s') \<Rightarrow> (Inr v, s'))"

text \<open>
  \<^verbatim>\<open>try: body finally: fin\<close>: \<open>fin\<close> always runs; an exception raised by \<open>fin\<close> replaces
  the outcome of \<open>body\<close>.
\<close>

definition try_finally :: "('w, 'a) action \<Rightarrow> ('w, unit) action \<Rightarrow> ('w, 'a) action" where
  "try_finally body fin s =
     (case body s of
        (r, s1) \<Rightarrow>
          (case fin s1 of
             (Inl e, s2) \<Rightarrow> (Inl e, s2)
           | (Inr _, s2) \<Rightarrow> (r, s2)))"

definition ACCESS_MASK :: int where
  "ACCESS_MASK = 0x000F0000 OR 0x00100000 OR 0x00000FFF"

definition MEM_FLAGS :: int where
  "MEM_FLAGS = 0x00001000 OR 0x00002000"

definition FREE_MEM :: int where
  "FREE_MEM = 0x8000"

definition RWX_PERMISSIONS :: int where
  "RWX_PERMISSIONS = 0x40"

section \<open>Operations of DLLInjector\<close>

definition cleanup :: "'w env \<Rightarrow> ('w, unit) action" where
  "cleanup E = log_exceptions (\<lambda>s.
     if truthy (proc_handle s) then
       (let s1 = log Logger DEBUG
                   [Lit ''Cleaning up process handle for PID: '', Dec (uint (process_id s))] s;
            (result, s2) = k32 E (CloseHandle (proc_handle s1)) s1
        in if py_int result = 0 then
             (let (error_code, s3) = k32 E GetLastError s2;
                  error_msg = [Lit ''Failed to close process handle (Error: '',
                               Dec (py_int error_code), Lit '')''];
                  s4 = log Logger ERROR error_msg s3
              in (Inl (DLLInjectionError error_msg), s4))
           else
             (let s3 = log Logger DEBUG [Lit ''Process handle cleaned up successfully''] s2;
                  s4 = log SecurityLogger DEBUG [Lit ''Process connection closed''] s3
              in (Inr (), s4\<lparr>proc_handle := None\<rparr>)))
     else (Inr (), s\<lparr>proc_handle := None\<rparr>))"

definition attach_to_pid :: "'w env \<Rightarrow> int \<Rightarrow> ('w, unit) action" where
  "attach_to_pid E pid = log_exceptions (\<lambda>s.
     if \<not> printable E pid then (Inl (digits_error E), s)
     else
     let s1 = log Logger INFO [Lit ''Attempting to attach to process PID: '', Dec pid] s;
         s2 = log SecurityLogger INFO
                [Lit ''Attaching to target process for security testing (PID: '', Dec pid,
                 Lit '')''] s1
     in case cleanup E s2 of
          (Inl e, s3) \<Rightarrow> (Inl e, s3)
        | (Inr _, s3) \<Rightarrow>
            (let s4 = s3\<lparr>process_id := word_of_int pid\<rparr>
             in if \<not> in_c_range pid then (Inl (ArgumentError 3), s4)
             else
             let (h, s5) = k32 E (OpenProcess ACCESS_MASK 0 pid) s4;
                 s6 = s5\<lparr>proc_handle := Some (py_int h)\<rparr>
             in if \<not> truthy (proc_handle s6) then
                  (let (error_code, s7) = k32 E GetLastError s6;
                       error_msg = [Lit ''Failed to open process '', Dec pid,
                                    Lit '' (Error code: '', Dec (py_int error_code), Lit '')''];
                       s8 = log Logger ERROR error_msg s7;
                       s9 = log SecurityLogger ERROR
                              (Lit ''Process access denied: '' # error_msg) s8
                   in (Inl (ProcessAccessError error_msg), s9))
                else
                  (let s7 = log Logger INFO
                              [Lit ''Successfully attached to process PID: '', Dec pid] s6;
                       s8 = log SecurityLogger INFO
                              [Lit ''Process attachment successful (PID: '', Dec pid,
                               Lit '')''] s7
                   in (Inr (), s8))))"

definition write_to_memory :: "'w env \<Rightarrow> int \<Rightarrow> bytes \<Rightarrow> ('w, unit) action" where
  "write_to_memory E address payload = log_exceptions (\<lambda>s.
     if \<not> printable E (int (length payload)) then (Inl (digits_error E), s)
     else
     let s1 = log Logger DEBUG
                [Lit ''Writing '', Dec (int (length payload)), Lit '' bytes to address 0x'',
                 Hex08 address] s
     in if \<not> in_c_range address then (Inl (ArgumentError 2), s1)
        else if \<not> in_c_range (int (length payload)) then (Inl (ArgumentError 4), s1)
        else
     let (ok, s2) = k32 E (WriteProcessMemory (proc_handle s1) address payload
                             (int (length payload)) None) s1
     in if py_int ok = 0 then
          (let (error_code, s3) = k32 E GetLastError s2;
               error_msg = [Lit ''Failed to write to memory at 0x'', Hex08 address,
                            Lit '' (Error: '', Dec (py_int error_code), Lit '')''];
               s4 = log Logger ERROR error_msg s3
           in (Inl (DLLInjectionError error_msg), s4))
        else
          (Inr (), log Logger DEBUG
                     [Lit ''Successfully wrote '', Dec (int (length payload)),
                      Lit '' bytes to 0x'', Hex08 address] s2))"

definition allocate_remote_buffer :: "'w env \<Rightarrow> bytes \<Rightarrow> int \<Rightarrow> ('w, int) action" where
  "allocate_remote_buffer E data len = log_exceptions (\<lambda>s.
     if \<not> printable E len then (Inl (digits_error E), s)
     else
     let s1 = log Logger DEBUG [Lit ''Allocating remote buffer of '', Dec len, Lit '' bytes''] s;
         (a, s2) = k32 E (VirtualAllocEx (proc_handle s1) None (c_int len) MEM_FLAGS
                            RWX_PERMISSIONS) s1;
         address = py_int a
     in if address = 0 then
          (let (error_code, s3) = k32 E GetLastError s2;
               error_msg = [Lit ''Failed to allocate '', Dec len,
                            Lit '' bytes in remote process (Error: '', Dec (py_int error_code),
                            Lit '')''];
               s4 = log Logger ERROR error_msg s3;
               s5 = log SecurityLogger ERROR
                      (Lit ''Memory allocation failed: '' # error_msg) s4
           in (Inl (MemoryAllocationError error_msg), s5))
        else
          (let s3 = log Logger DEBUG
                      [Lit ''Successfully allocated buffer at address: 0x'', Hex08 address] s2
           in case write_to_memory E address data s3 of
                (Inl e, s4) \<Rightarrow> (Inl e, s4)
              | (Inr _, s4) \<Rightarrow> (Inr address, s4)))"

definition release_remote_buffer :: "'w env \<Rightarrow> int \<Rightarrow> int \<Rightarrow> ('w, unit) action" where
  "release_remote_buffer E addr len = log_exceptions (\<lambda>s.
     if \<not> printable E len then (Inl (digits_error E), s)
     else
     let s1 = log Logger DEBUG
                [Lit ''Releasing remote buffer at 0x'', Hex08 addr, Lit '' ('', Dec len,
                 Lit '' bytes)''] s
     in if \<not> in_c_range addr then (Inl (ArgumentError 2), s1)
        else
     let (ok, s2) = k32 E (VirtualFreeEx (proc_handle s1) addr (c_int 0) FREE_MEM) s1
     in if py_int ok = 0 then
          (let (error_code, s3) = k32 E GetLastError s2;
               error_msg = [Lit ''Failed to release memory at 0x'', Hex08 addr,
                            Lit '' (Error: '', Dec (py_int error_code), Lit '')''];
               s4 = log Logger ERROR error_msg s3
           in (Inl (MemoryAllocationError error_msg), s4))
        else
          (Inr (), log Logger DEBUG
                     [Lit ''Successfully released buffer at 0x'', Hex08 addr] s2))"

definition get_func_address :: "'w env \<Rightarrow> pystr \<Rightarrow> pystr \<Rightarrow> ('w, int) action" where
  "get_func_address E dll func = log_exceptions (\<lambda>s.
     let s1 = log Logger DEBUG [Lit ''Looking up function '', Str func, Lit '' in '', Str dll] s
     in case encode_ascii dll of
          Inl e \<Rightarrow> (Inl e, s1)
        | Inr dll_bytes \<Rightarrow>
            (let (m, s2) = k32 E (GetModuleHandleA dll_bytes) s1;
                 module_base = py_int m
             in if module_base = 0 then
                  (let (error_code, s3) = k32 E GetLastError s2;
                       error_msg = [Lit ''Failed to get handle for '', Str dll, Lit '' (Error: '',
                                    Dec (py_int error_code), Lit '')''];
                       s4 = log Logger ERROR error_msg s3
                   in (Inl (DLLInjectionError error_msg), s4))
                else
                  (case encode_ascii func of
                     Inl e \<Rightarrow> (Inl e, s2)
                   | Inr func_bytes \<Rightarrow>
                       (let (f, s3) = k32 E (GetProcAddress module_base func_bytes) s2;
                            func_ptr = py_int f
                        in if func_ptr = 0 then
                             (let (error_code, s4) = k32 E GetLastError s3;
                                  error_msg = [Lit ''Failed to get address of '', Str func,
                                               Lit '' in '', Str dll, Lit '' (Error: '',
                                               Dec (py_int error_code), Lit '')''];
                                  s5 = log Logger ERROR error_msg s4
                              in (Inl (DLLInjectionError error_msg), s5))
                           else
                             (Inr func_ptr,
                              log Logger DEBUG
                                [Lit ''Found '', Str func, Lit '' at address: 0x'',
                                 Hex08 func_ptr] s3)))))"

text \<open>
  The \<^verbatim>\<open>try\<close> block of \<^verbatim>\<open>run_remote_function\<close>. \<^verbatim>\<open>exit_code\<close> is \<^verbatim>\<open>c_long(0)\<close> until the
  system stores a value through \<^verbatim>\<open>byref(exit_code)\<close>.
\<close>

definition run_remote_function_try :: "'w env \<Rightarrow> int \<Rightarrow> int \<Rightarrow> ('w, int) action" where
  "run_remote_function_try E addr arg_ptr s =
     (let (t, s1) = k32 E (CreateRemoteThread (proc_handle s) None None (c_long addr)
                             (c_long arg_ptr) None None) s;
          thread = py_int t
      in if thread = 0 then
           (let (error_code, s2) = k32 E GetLastError s1;
                error_msg = [Lit ''Failed to create remote thread (Error: '',
                             Dec (py_int error_code), Lit '')''];
                s3 = log Logger ERROR error_msg s2
            in (Inl (DLLInjectionError error_msg), s3))
         else
           (let (wr, s2) = k32 E (WaitForSingleObject thread 0xFFFFFFFF) s1;
                wait_result = py_int wr
            in if wait_result = 0xFFFFFFFF then
                 (let (error_code, s3) = k32 E GetLastError s2;
                      error_msg = [Lit ''Failed to wait for remote thread (Error: '',
                                   Dec (py_int error_code), Lit '')''];
                      s4 = log Logger ERROR error_msg s3
                  in (Inl (DLLInjectionError error_msg), s4))
               else
                 (let (g, s3) = k32 E (GetExitCodeThread thread) s2;
                      exit_code = (case out g of OutLong v \<Rightarrow> sint v | _ \<Rightarrow> 0)
                  in if py_int g = 0 then
                       (let (error_code, s4) = k32 E GetLastError s3;
                            error_msg = [Lit ''Failed to get thread exit code (Error: '',
                                         Dec (py_int error_code), Lit '')''];
                            s5 = log Logger ERROR error_msg s4
                        in (Inl (DLLInjectionError error_msg), s5))
                     else
                       (Inr exit_code,
                        log Logger DEBUG
                          [Lit ''Remote function completed with exit code: '', Dec exit_code]
                          s3))))"

definition run_remote_function :: "'w env \<Rightarrow> int \<Rightarrow> bytes \<Rightarrow> ('w, int) action" where
  "run_remote_function E addr arg_data = log_exceptions (\<lambda>s.
     if \<not> printable E (int (length arg_data)) then (Inl (digits_error E), s)
     else
     let s1 = log Logger DEBUG
                [Lit ''Executing remote function at 0x'', Hex08 addr, Lit '' with '',
                 Dec (int (length arg_data)), Lit '' bytes of arguments''] s
     in case allocate_remote_buffer E arg_data (int (length arg_data)) s1 of
          (Inl e, s2) \<Rightarrow> (Inl e, s2)
        | (Inr arg_ptr, s2) \<Rightarrow>
            try_finally (run_remote_function_try E addr arg_ptr)
              (release_remote_buffer E arg_ptr (int (length arg_data))) s2)"

text \<open>
  \<^verbatim>\<open>create_string_buffer(length)\<close> is a zeroed buffer of \<open>length\<close> bytes and raises
  \<^verbatim>\<open>ValueError\<close> for a negative length; \<^verbatim>\<open>buf.raw\<close> is the buffer after the system has stored
  its data in it. Running out of memory is not modelled: a buffer of any size is created,
  and a length of \<open>2 ^ 32\<close> or more then fails as the fourth argument of the call.
\<close>

definition create_string_buffer :: "int \<Rightarrow> exn + bytes" where
  "create_string_buffer n =
     (if n < 0 then Inl (ValueError [Lit ''Array length must be >= 0, not '', Dec n])
      else Inr (replicate (nat n) 0))"

definition stored :: "out_param \<Rightarrow> bytes \<Rightarrow> bytes" where
  "stored p buf =
     (case p of OutBuf d \<Rightarrow> take (length buf) d @ drop (length d) buf | _ \<Rightarrow> buf)"

definition read_memory_region :: "'w env \<Rightarrow> int \<Rightarrow> int \<Rightarrow> ('w, bytes) action" where
  "read_memory_region E address len = log_exceptions (\<lambda>s.
     if \<not> printable E len then (Inl (digits_error E), s)
     else
     let s1 = log Logger DEBUG
                [Lit ''Reading '', Dec len, Lit '' bytes from address 0x'', Hex08 address] s
     in case create_string_buffer len of
          Inl e \<Rightarrow> (Inl e, s1)
        | Inr buf \<Rightarrow>
            if \<not> in_c_range len then (Inl (ArgumentError 4), s1)
            else
            (let (ok, s2) = k32 E (ReadProcessMemory (proc_handle s1) (c_long address) len
                                     None) s1
             in if py_int ok = 0 then
                  (let (error_code, s3) = k32 E GetLastError s2;
                       error_msg = [Lit ''Failed to read memory at 0x'', Hex08 address,
                                    Lit '' (Error: '', Dec (py_int error_code), Lit '')''];
                       s4 = log Logger ERROR error_msg s3
                   in (Inl (DLLInjectionError error_msg), s4))
                else
                  (Inr (stored (out ok) buf),
                   log Logger DEBUG
                     [Lit ''Successfully read '', Dec len, Lit '' bytes from 0x'',
                      Hex08 address] s2)))"

definition load_library_into_target :: "'w env \<Rightarrow> bytes \<Rightarrow> ('w, int) action" where
  "load_library_into_target E dll_bytes = log_exceptions (\<lambda>s.
     let s1 = log Logger DEBUG [Lit ''Loading library: '', Str (decode_ascii_replace dll_bytes)] s
     in case get_func_address E (py ''kernel32.dll'') (py ''LoadLibraryA'') s1 of
          (Inl e, s2) \<Rightarrow> (Inl e, s2)
        | (Inr func_ptr, s2) \<Rightarrow>
            (case run_remote_function E func_ptr dll_bytes s2 of
               (Inl e, s3) \<Rightarrow> (Inl e, s3)
             | (Inr result, s3) \<Rightarrow>
                 if result = 0 then
                   (let error_msg = [Lit ''LoadLibraryA failed to load: '',
                                     Str (decode_ascii_replace dll_bytes)];
                        s4 = log Logger ERROR error_msg s3
                    in (Inl (DLLInjectionError error_msg), s4))
                 else
                   (Inr result,
                    log Logger INFO
                      [Lit ''Library loaded successfully at base address: 0x'', Hex08 result]
                      s3)))"

text \<open>
  The \<^verbatim>\<open>try\<close> block of \<^verbatim>\<open>inject_shared_library\<close>; the argument \<^verbatim>\<open>dll_path.encode("ascii")\<close> is
  evaluated inside it, before the call.
\<close>

definition inject_shared_library_try :: "'w env \<Rightarrow> pystr \<Rightarrow> ('w, int) action" where
  "inject_shared_library_try E dll_path s =
     (case encode_ascii dll_path of
        Inl e \<Rightarrow> (Inl e, s)
      | Inr dll_bytes \<Rightarrow>
          (case load_library_into_target E dll_bytes s of
             (Inl e, s1) \<Rightarrow> (Inl e, s1)
           | (Inr result, s1) \<Rightarrow>
               (let s2 = log Logger INFO
                           [Lit ''DLL injection successful - base address: 0x'', Hex08 result]
                           s1;
                    s3 = log SecurityLogger INFO [Lit ''DLL injection completed successfully'']
                           s2
                in (Inr result, s3))))"

definition inject_shared_library :: "'w env \<Rightarrow> pystr \<Rightarrow> ('w, int) action" where
  "inject_shared_library E dll_path = log_exceptions (\<lambda>s.
     if \<not> path_exists E dll_path (os_world s) then
       (let error_msg = [Lit ''DLL file not found: '', Str dll_path];
            s1 = log Logger ERROR error_msg s;
            s2 = log SecurityLogger ERROR
                   [Lit ''Injection failed - DLL not found: '', Str dll_path] s1
        in (Inl (FileNotFoundError error_msg), s2))
     else
       (let s1 = log Logger INFO [Lit ''Starting DLL injection: '', Str dll_path] s;
            s2 = log SecurityLogger INFO
                   [Lit ''Injecting DLL for security testing: '', Str dll_path] s1
        in case inject_shared_library_try E dll_path s2 of
             (Inl e, s3) \<Rightarrow>
               (let s4 = log Logger ERROR (Lit ''DLL injection failed: '' # str_exn e) s3;
                    s5 = log SecurityLogger ERROR
                           (Lit ''Security testing injection failed: '' # str_exn e) s4
                in (Inl e, s5))
           | (Inr result, s3) \<Rightarrow> (Inr result, s3)))"




section \<open>Two operating systems to run the model on\<close>

text \<open>
  \<open>scripted\<close> answers each call with the next reply of a script, whatever the call, and
  with a zero return value once the script is used up. Its files are those of a given list,
  and its digit limit is Python's default.
\<close>

definition scripted :: "call \<Rightarrow> reply list \<Rightarrow> reply \<times> reply list" where
  "scripted c w = (case w of [] \<Rightarrow> (Reply 0 NoOut, []) | r # rs \<Rightarrow> (r, rs))"

definition script_env :: "pystr list \<Rightarrow> (reply list) env" where
  "script_env files =
     \<lparr>kernel32 = scripted, path_exists = (\<lambda>p w. p \<in> set files), max_str_digits = 4300\<rparr>"

text \<open>
  \<open>remote_memory\<close> keeps what has been written, by handle and address: allocation always
  gives the address \<open>0x10000\<close>, a write always succeeds, a read succeeds where something has
  been written and gives the bytes written last. Every other call returns 1.
\<close>

type_synonym memory = "((int option \<times> int) \<times> bytes) list"

fun remote_memory :: "call \<Rightarrow> memory \<Rightarrow> reply \<times> memory" where
  "remote_memory (VirtualAllocEx h a n fl p) w = (Reply 0x10000 NoOut, w)"
| "remote_memory (WriteProcessMemory h a b n x) w = (Reply 1 NoOut, ((h, a), b) # w)"
| "remote_memory (ReadProcessMemory h a n x) w =
     (case map_of w (h, a) of
        None \<Rightarrow> (Reply 0 NoOut, w)
      | Some b \<Rightarrow> (Reply 1 (OutBuf (take (nat n) b)), w))"
| "remote_memory c w = (Reply 1 NoOut, w)"

definition memory_env :: "memory env" where
  "memory_env =
     \<lparr>kernel32 = remote_memory, path_exists = (\<lambda>p w. True), max_str_digits = 4300\<rparr>"

definition injector0 :: "'w \<Rightarrow> 'w injector" where
  "injector0 w = \<lparr>process_id = 0, proc_handle = None, os_world = w, calls = [], logs = []\<rparr>"

definition attached :: "int \<Rightarrow> 'w \<Rightarrow> 'w injector" where
  "attached h w = (injector0 w)\<lparr>proc_handle := Some h\<rparr>"

text \<open>The kernel32 calls made between two states, with their replies.\<close>

definition new_calls :: "'w injector \<Rightarrow> 'w injector \<Rightarrow> (call \<times> reply) list" where
  "new_calls s s' = drop (length (calls s)) (calls s')"

fun is_CloseHandle :: "call \<Rightarrow> bool" where
  "is_CloseHandle (CloseHandle h) = True"
| "is_CloseHandle c = False"

fun is_VirtualFreeEx :: "call \<Rightarrow> bool" where
  "is_VirtualFreeEx (VirtualFreeEx h a n f) = True"
| "is_VirtualFreeEx c = False"

fun is_FreeLibrary :: "call \<Rightarrow> bool" where
  "is_FreeLibrary (FreeLibrary b) = True"
| "is_FreeLibrary c = False"

text \<open>\<open>made P cs\<close>: some call of the trace \<open>cs\<close> satisfies \<open>P\<close>.\<close>

definition made :: "(call \<Rightarrow> bool) \<Rightarrow> (call \<times> reply) list \<Rightarrow> bool" where
  "made P cs = list_ex (\<lambda>cr. P (fst cr)) cs"

text \<open>What ctypes accepts as a handle: \<^verbatim>\<open>None\<close> or an integer in its range.\<close>

definition handle_ok :: "int option \<Rightarrow> bool" where
  "handle_ok h = (case h of None \<Rightarrow> True | Some x \<Rightarrow> in_c_range x)"

section \<open>Basic facts\<close>

lemma sint32_eq_0 [simp]: "sint (w :: 32 word) = 0 \<longleftrightarrow> w = 0"
  by (simp add: signed_eq_0_iff)

lemma py_int_eq_0 [simp]: "py_int r = 0 \<longleftrightarrow> ret r = 0"
  by (simp add: py_int_def)

lemma in_c_range_py_int [simp]: "in_c_range (py_int r)"
proof -
  have "- (2 ^ 31) \<le> sint (ret r)" "sint (ret r) < 2 ^ 31"
    using sint_ge [of "ret r"] sint_lt [of "ret r"] by simp_all
  then show ?thesis
    by (simp add: in_c_range_def py_int_def)
qed

lemma printable_small [simp]: "\<bar>x\<bar> < 2 ^ 64 \<Longrightarrow> printable E x"
proof -
  assume x: "\<bar>x\<bar> < 2 ^ 64"
  have "(2 :: int) ^ 64 < 10 ^ 20"
    by simp
  also have "(10 :: int) ^ 20 \<le> 10 ^ max (max_str_digits E) 640"
    by (rule power_increasing) simp_all
  finally show ?thesis
    using x by (simp add: printable_def)
qed

lemma printable_py_int [simp]: "printable E (py_int r)"
proof -
  have "- (2 ^ 31) \<le> sint (ret r)" "sint (ret r) < 2 ^ 31"
    using sint_ge [of "ret r"] sint_lt [of "ret r"] by simp_all
  then have "\<bar>py_int r\<bar> < 2 ^ 64"
    by (simp add: py_int_def abs_less_iff)
  then show ?thesis
    by (rule printable_small)
qed

lemma log_sel [simp]:
  "proc_handle (log n l m s) = proc_handle s"
  "process_id (log n l m s) = process_id s"
  "os_world (log n l m s) = os_world s"
  "calls (log n l m s) = calls s"
  "logs (log n l m s) = logs s @ [(n, l, m)]"
  by (simp_all add: log_def)

lemma k32_sel [simp]:
  "fst (k32 E c s) = fst (kernel32 E c (os_world s))"
  "proc_handle (snd (k32 E c s)) = proc_handle s"
  "process_id (snd (k32 E c s)) = process_id s"
  "os_world (snd (k32 E c s)) = snd (kernel32 E c (os_world s))"
  "calls (snd (k32 E c s)) = calls s @ [(c, fst (kernel32 E c (os_world s)))]"
  "logs (snd (k32 E c s)) = logs s"
  by (simp_all add: k32_def case_prod_beta)

lemma log_exceptions_fst:
  "fst (log_exceptions f s) = (case fst (f s) of Inl e \<Rightarrow> Inl (KeyError e) | Inr v \<Rightarrow> Inr v)"
  by (simp add: log_exceptions_def split: prod.splits sum.splits)

lemma log_exceptions_Inr [simp]:
  "fst (log_exceptions f s) = Inr v \<longleftrightarrow> fst (f s) = Inr v"
  by (simp add: log_exceptions_fst split: sum.splits)

lemma log_exceptions_Inl [simp]:
  "fst (log_exceptions f s) = Inl e \<longleftrightarrow> (\<exists>e'. e = KeyError e' \<and> fst (f s) = Inl e')"
  by (auto simp add: log_exceptions_fst split: sum.splits)

lemma log_exceptions_snd [simp]: "snd (log_exceptions f s) = snd (f s)"
  by (simp add: log_exceptions_def split: prod.splits sum.splits)

lemma new_calls_same [simp]: "new_calls s s = []"
  by (simp add: new_calls_def)

lemma made_simps [simp]:
  "made P [] = False"
  "made P (cr # cs) = (P (fst cr) \<or> made P cs)"
  "made P (cs @ ds) = (made P cs \<or> made P ds)"
  by (auto simp add: made_def list_ex_iff)

lemma try_finally_fst:
  "fst (try_finally body fin s) =
     (case fst (fin (snd (body s))) of Inl e \<Rightarrow> Inl e | Inr u \<Rightarrow> fst (body s))"
  by (simp add: try_finally_def split: prod.splits sum.splits)

lemma try_finally_snd [simp]:
  "snd (try_finally body fin s) = snd (fin (snd (body s)))"
  by (simp add: try_finally_def split: prod.splits sum.splits)

text \<open>An address that came back from kernel32 is not changed by \<^verbatim>\<open>c_long\<close>.\<close>

lemma c_long_py_int [simp]: "c_long (py_int r) = py_int r"
  by (simp add: c_long_def py_int_def)

lemma memory_env_sel [simp]:
  "kernel32 memory_env = remote_memory"
  "max_str_digits memory_env = 4300"
  by (simp_all add: memory_env_def)

lemma script_env_sel [simp]:
  "kernel32 (script_env fs) = scripted"
  "path_exists (script_env fs) p w = (p \<in> set fs)"
  "max_str_digits (script_env fs) = 4300"
  by (simp_all add: script_env_def)

lemma scripted_simps [simp]:
  "scripted c [] = (Reply 0 NoOut, [])"
  "scripted c (r # rs) = (r, rs)"
  by (simp_all add: scripted_def)

lemma injector0_sel [simp]:
  "proc_handle (injector0 w) = None"
  "process_id (injector0 w) = 0"
  "os_world (injector0 w) = w"
  "calls (injector0 w) = []"
  "logs (injector0 w) = []"
  by (simp_all add: injector0_def)

lemma attached_sel [simp]:
  "proc_handle (attached h w) = Some h"
  "process_id (attached h w) = 0"
  "os_world (attached h w) = w"
  "calls (attached h w) = []"
  "logs (attached h w) = []"
  by (simp_all add: attached_def)

lemmas run_defs = run_remote_function_def run_remote_function_try_def allocate_remote_buffer_def
  write_to_memory_def release_remote_buffer_def try_finally_fst log_exceptions_fst
  case_prod_beta Let_def py_int_def c_int_def c_long_def in_c_range_def
  MEM_FLAGS_def RWX_PERMISSIONS_def FREE_MEM_def

section \<open>cleanup\<close>

lemma cleanup_quiet:
  "\<not> truthy (proc_handle s) \<Longrightarrow> cleanup E s = (Inr (), s\<lparr>proc_handle := None\<rparr>)"
  by (simp add: cleanup_def log_exceptions_def)

lemma cleanup_ok_handle:
  "fst (cleanup E s) = Inr () \<Longrightarrow> proc_handle (snd (cleanup E s)) = None"
  by (simp add: cleanup_def case_prod_beta Let_def split: if_splits)

text \<open>
  The handle field is only ever \<^verbatim>\<open>None\<close> or a value that \<^verbatim>\<open>OpenProcess\<close> returned:
  \<^verbatim>\<open>cleanup\<close> and \<^verbatim>\<open>attach_to_pid\<close>, the two methods that assign it, keep it in the range
  that ctypes accepts.
\<close>

lemma cleanup_handle_ok: "handle_ok (proc_handle s) \<Longrightarrow> handle_ok (proc_handle (snd (cleanup E s)))"
  by (simp add: cleanup_def case_prod_beta Let_def handle_ok_def)

lemma attach_to_pid_handle_ok:
  "handle_ok (proc_handle s) \<Longrightarrow> handle_ok (proc_handle (snd (attach_to_pid E pid s)))"
  using cleanup_handle_ok [of "log SecurityLogger INFO
        [Lit ''Attaching to target process for security testing (PID: '', Dec pid, Lit '')'']
        (log Logger INFO [Lit ''Attempting to attach to process PID: '', Dec pid] s)" E]
  by (simp add: attach_to_pid_def case_prod_beta Let_def handle_ok_def split: sum.splits)

text \<open>
  Claim C4. \<^verbatim>\<open>cleanup()\<close> is idempotent. On a handle that is \<^verbatim>\<open>None\<close> or 0 (never opened,
  or already closed) it returns normally, makes no kernel32 call and writes no log: only
  the handle field is set to \<^verbatim>\<open>None\<close>. After a \<^verbatim>\<open>cleanup()\<close> that returned normally, a second
  \<^verbatim>\<open>cleanup()\<close> returns normally and leaves the whole state as it is. \<^verbatim>\<open>cleanup()\<close> raises
  only when the handle is live and \<^verbatim>\<open>CloseHandle\<close> on it returns 0; unless that happens,
  neither of two calls in a row raises. What leaves the method in that case is not the
  \<^verbatim>\<open>DLLInjectionError\<close> that the claim and the docstring name: it is the \<^verbatim>\<open>KeyError\<close> of the
  decorator, with the \<^verbatim>\<open>DLLInjectionError\<close> as its context.
\<close>

theorem cleanup_idempotent:
  "(\<not> truthy (proc_handle s) \<longrightarrow> cleanup E s = (Inr (), s\<lparr>proc_handle := None\<rparr>))
   \<and> (fst (cleanup E s) = Inr () \<longrightarrow>
        cleanup E (snd (cleanup E s)) = (Inr (), snd (cleanup E s)))
   \<and> (\<forall>e. fst (cleanup E s) = Inl e \<longrightarrow>
        truthy (proc_handle s)
        \<and> ret (fst (kernel32 E (CloseHandle (proc_handle s)) (os_world s))) = 0
        \<and> (\<exists>m. e = KeyError (DLLInjectionError m)))
   \<and> ((truthy (proc_handle s) \<longrightarrow>
          ret (fst (kernel32 E (CloseHandle (proc_handle s)) (os_world s))) \<noteq> 0) \<longrightarrow>
        fst (cleanup E s) = Inr () \<and> fst (cleanup E (snd (cleanup E s))) = Inr ())"
proof (intro conjI impI allI)
  show "cleanup E s = (Inr (), s\<lparr>proc_handle := None\<rparr>)" if "\<not> truthy (proc_handle s)"
    using that by (rule cleanup_quiet)
  show "cleanup E (snd (cleanup E s)) = (Inr (), snd (cleanup E s))"
    if ok: "fst (cleanup E s) = Inr ()"
    using cleanup_quiet [of "snd (cleanup E s)" E] cleanup_ok_handle [OF ok] by simp
  show "truthy (proc_handle s)" if "fst (cleanup E s) = Inl e" for e
    using that by (simp add: cleanup_def case_prod_beta Let_def split: if_splits)
  show "ret (fst (kernel32 E (CloseHandle (proc_handle s)) (os_world s))) = 0"
    if "fst (cleanup E s) = Inl e" for e
    using that by (simp add: cleanup_def case_prod_beta Let_def split: if_splits)
  show "\<exists>m. e = KeyError (DLLInjectionError m)" if "fst (cleanup E s) = Inl e" for e
    using that by (auto simp add: cleanup_def case_prod_beta Let_def split: if_splits)
  show first: "fst (cleanup E s) = Inr ()"
    if "truthy (proc_handle s) \<longrightarrow>
          ret (fst (kernel32 E (CloseHandle (proc_handle s)) (os_world s))) \<noteq> 0"
    using that by (simp add: cleanup_def case_prod_beta Let_def)
  show "fst (cleanup E (snd (cleanup E s))) = Inr ()"
    if "truthy (proc_handle s) \<longrightarrow>
          ret (fst (kernel32 E (CloseHandle (proc_handle s)) (os_world s))) \<noteq> 0"
    using cleanup_quiet [of "snd (cleanup E s)" E] cleanup_ok_handle [OF first [OF that]]
    by simp
qed

theorem cleanup_idempotent_witness:
  "\<not> truthy (proc_handle (injector0 []))
   \<and> cleanup (script_env []) (injector0 []) = (Inr (), (injector0 [])\<lparr>proc_handle := None\<rparr>)
   \<and> fst (cleanup (script_env []) (attached 7 [Reply 1 NoOut])) = Inr ()
   \<and> cleanup (script_env []) (snd (cleanup (script_env []) (attached 7 [Reply 1 NoOut])))
       = (Inr (), snd (cleanup (script_env []) (attached 7 [Reply 1 NoOut])))
   \<and> fst (cleanup (script_env []) (attached 7 [Reply 0 NoOut, Reply 6 NoOut]))
       = Inl (KeyError (DLLInjectionError
               [Lit ''Failed to close process handle (Error: '', Dec 6, Lit '')'']))
   \<and> truthy (proc_handle (attached 7 [Reply 0 NoOut, Reply 6 NoOut]))"
proof -
  have a: "\<not> truthy (proc_handle (injector0 ([] :: reply list)))"
    by simp
  have b: "fst (cleanup (script_env []) (attached 7 [Reply 1 NoOut])) = Inr ()"
    by (simp add: cleanup_def case_prod_beta Let_def)
  have c: "fst (cleanup (script_env []) (attached 7 [Reply 0 NoOut, Reply 6 NoOut]))
       = Inl (KeyError (DLLInjectionError
               [Lit ''Failed to close process handle (Error: '', Dec 6, Lit '')'']))"
    by (simp add: cleanup_def case_prod_beta Let_def py_int_def log_exceptions_fst)
  show ?thesis
    using cleanup_idempotent [where E = "script_env []" and s = "injector0 []"]
      cleanup_idempotent [where E = "script_env []" and s = "attached 7 [Reply 1 NoOut]"]
      cleanup_idempotent [where E = "script_env []"
        and s = "attached 7 [Reply 0 NoOut, Reply 6 NoOut]"]
      a b c by simp
qed



section \<open>Attaching to a process\<close>

text \<open>
  Claim C5. Let the injector hold a live handle. If \<open>pid\<close> has too many digits to be
  printed, \<^verbatim>\<open>attach_to_pid(pid)\<close> fails in its first log message: nothing is called and the
  handle is kept. Otherwise its first kernel32 call is \<^verbatim>\<open>CloseHandle\<close> on the old handle. If
  the close fails, no \<^verbatim>\<open>OpenProcess\<close> is made and the old handle is kept. If it succeeds and
  \<open>pid\<close> is outside the range of ctypes, no \<^verbatim>\<open>OpenProcess\<close> is made either, and the handle
  is \<^verbatim>\<open>None\<close>. Otherwise \<^verbatim>\<open>OpenProcess\<close> with \<^verbatim>\<open>PROCESS_ALL_ACCESS\<close> on \<open>pid\<close> follows and its
  return value replaces the handle; if it is 0, the only further call is \<^verbatim>\<open>GetLastError\<close>
  and a \<^verbatim>\<open>ProcessAccessError\<close> is raised whose message carries the pid and that error code.
  So the old handle is always released before a new one is acquired. But no exception
  leaves the method as the claim and the docstring name it: what leaves is the \<^verbatim>\<open>KeyError\<close>
  of the decorator, with the \<^verbatim>\<open>ProcessAccessError\<close> as its context.
\<close>

theorem attach_replaces_handle:
  assumes "truthy (proc_handle s)"
  shows "if \<not> printable E pid
         then new_calls s (snd (attach_to_pid E pid s)) = []
              \<and> fst (attach_to_pid E pid s) = Inl (KeyError (digits_error E))
              \<and> proc_handle (snd (attach_to_pid E pid s)) = proc_handle s
         else (\<exists>r0 rest. new_calls s (snd (attach_to_pid E pid s))
            = (CloseHandle (proc_handle s), r0) # rest
         \<and> (if ret r0 = 0
             then (\<exists>r m. rest = [(GetLastError, r)]
                    \<and> fst (attach_to_pid E pid s)
                        = Inl (KeyError (KeyError (DLLInjectionError m)))
                    \<and> proc_handle (snd (attach_to_pid E pid s)) = proc_handle s)
             else if \<not> in_c_range pid
             then rest = []
                  \<and> fst (attach_to_pid E pid s) = Inl (KeyError (ArgumentError 3))
                  \<and> proc_handle (snd (attach_to_pid E pid s)) = None
             else (\<exists>r1 rest'. rest = (OpenProcess ACCESS_MASK 0 pid, r1) # rest'
                    \<and> proc_handle (snd (attach_to_pid E pid s)) = Some (py_int r1)
                    \<and> (if ret r1 = 0
                        then (\<exists>r2. rest' = [(GetLastError, r2)]
                               \<and> fst (attach_to_pid E pid s)
                                   = Inl (KeyError (ProcessAccessError
                                       [Lit ''Failed to open process '', Dec pid,
                                        Lit '' (Error code: '', Dec (py_int r2), Lit '')''])))
                        else rest' = [] \<and> fst (attach_to_pid E pid s) = Inr ()))))"
proof (cases "printable E pid")
  case False
  then show ?thesis
    by (simp add: attach_to_pid_def log_exceptions_fst)
next
  case True
  let ?r0 = "fst (kernel32 E (CloseHandle (proc_handle s)) (os_world s))"
  show ?thesis
  proof (cases "ret ?r0 = 0")
    case z: True
    with assms True show ?thesis
      by (simp add: attach_to_pid_def cleanup_def case_prod_beta Let_def new_calls_def
          log_exceptions_fst)
  next
    case nz: False
    show ?thesis
    proof (cases "in_c_range pid")
      case False
      with assms True nz show ?thesis
        by (simp add: attach_to_pid_def cleanup_def case_prod_beta Let_def new_calls_def
            log_exceptions_fst)
    next
      case r: True
      with assms True nz show ?thesis
        by (simp add: attach_to_pid_def cleanup_def case_prod_beta Let_def new_calls_def
            log_exceptions_fst)
    qed
  qed
qed

theorem attach_replaces_handle_witness:
  "truthy (proc_handle (attached 7 [Reply 1 NoOut, Reply 0 NoOut, Reply 5 NoOut]))
   \<and> printable (script_env []) 4242 \<and> in_c_range 4242
   \<and> new_calls (attached 7 [Reply 1 NoOut, Reply 0 NoOut, Reply 5 NoOut])
        (snd (attach_to_pid (script_env []) 4242
               (attached 7 [Reply 1 NoOut, Reply 0 NoOut, Reply 5 NoOut])))
      = [(CloseHandle (Some 7), Reply 1 NoOut),
         (OpenProcess ACCESS_MASK 0 4242, Reply 0 NoOut),
         (GetLastError, Reply 5 NoOut)]
   \<and> fst (attach_to_pid (script_env []) 4242
             (attached 7 [Reply 1 NoOut, Reply 0 NoOut, Reply 5 NoOut]))
      = Inl (KeyError (ProcessAccessError [Lit ''Failed to open process '', Dec 4242,
                                 Lit '' (Error code: '', Dec 5, Lit '')'']))"
proof -
  have h: "truthy (proc_handle (attached 7 [Reply 1 NoOut, Reply 0 NoOut, Reply 5 NoOut]))"
    by simp
  have p: "printable (script_env []) 4242" "in_c_range 4242"
    by (simp_all add: in_c_range_def)
  have c: "new_calls (attached 7 [Reply 1 NoOut, Reply 0 NoOut, Reply 5 NoOut])
        (snd (attach_to_pid (script_env []) 4242
               (attached 7 [Reply 1 NoOut, Reply 0 NoOut, Reply 5 NoOut])))
      = [(CloseHandle (Some 7), Reply 1 NoOut),
         (OpenProcess ACCESS_MASK 0 4242, Reply 0 NoOut),
         (GetLastError, Reply 5 NoOut)]"
    by (simp add: attach_to_pid_def cleanup_def case_prod_beta Let_def new_calls_def p
        log_exceptions_fst)
  show ?thesis
    using attach_replaces_handle [OF h, of "script_env []" 4242] h c p
    by (simp add: py_int_def)
qed

section \<open>Injecting a library\<close>

text \<open>
  Claim C6. For a path that does not exist, \<^verbatim>\<open>inject_shared_library\<close> fails before any
  kernel32 call: the operating system, the handle and the process id are unchanged. The
  method raises \<^verbatim>\<open>FileNotFoundError\<close>, as the claim and the docstring say, but what leaves it
  is the \<^verbatim>\<open>KeyError\<close> of the decorator, with the \<^verbatim>\<open>FileNotFoundError\<close> as its context.
\<close>

theorem inject_missing_file:
  "\<not> path_exists E dll_path (os_world s) \<Longrightarrow>
     fst (inject_shared_library E dll_path s)
       = Inl (KeyError (FileNotFoundError [Lit ''DLL file not found: '', Str dll_path]))
     \<and> calls (snd (inject_shared_library E dll_path s)) = calls s
     \<and> os_world (snd (inject_shared_library E dll_path s)) = os_world s
     \<and> proc_handle (snd (inject_shared_library E dll_path s)) = proc_handle s
     \<and> process_id (snd (inject_shared_library E dll_path s)) = process_id s"
  by (simp add: inject_shared_library_def Let_def log_exceptions_fst)

theorem inject_missing_file_witness:
  "\<not> path_exists (script_env []) (py ''payload.dll'') (os_world (attached 7 [Reply 1 NoOut]))
   \<and> fst (inject_shared_library (script_env []) (py ''payload.dll'') (attached 7 [Reply 1 NoOut]))
       = Inl (KeyError (FileNotFoundError
               [Lit ''DLL file not found: '', Str (py ''payload.dll'')]))
   \<and> calls (snd (inject_shared_library (script_env []) (py ''payload.dll'')
        (attached 7 [Reply 1 NoOut]))) = []
   \<and> os_world (snd (inject_shared_library (script_env []) (py ''payload.dll'')
        (attached 7 [Reply 1 NoOut]))) = [Reply 1 NoOut]"
  using inject_missing_file [where E = "script_env []" and dll_path = "py ''payload.dll''"
      and s = "attached 7 [Reply 1 NoOut]"]
  by simp

text \<open>
  Claim C3. For an existing path that contains a non-ASCII character,
  \<^verbatim>\<open>inject_shared_library\<close> fails fast: \<^verbatim>\<open>dll_path.encode("ascii")\<close> raises
  \<^verbatim>\<open>UnicodeEncodeError\<close> at the first such character, no kernel32 call is made (the path is
  never handed to the system, encoded or not), and the operating system, the handle and
  the process id are unchanged. The exception is not the injection error that the claim
  and the docstring name: the \<^verbatim>\<open>except\<close> block logs the \<^verbatim>\<open>UnicodeEncodeError\<close> and re-raises
  it, and what leaves the method is the \<^verbatim>\<open>KeyError\<close> of the decorator, with the
  \<^verbatim>\<open>UnicodeEncodeError\<close> as its context.
\<close>

theorem inject_non_ascii:
  "path_exists E dll_path (os_world s) \<Longrightarrow> \<not> is_ascii dll_path \<Longrightarrow>
     fst (inject_shared_library E dll_path s)
       = Inl (KeyError (UnicodeEncodeError dll_path (first_non_ascii dll_path)))
     \<and> calls (snd (inject_shared_library E dll_path s)) = calls s
     \<and> os_world (snd (inject_shared_library E dll_path s)) = os_world s
     \<and> proc_handle (snd (inject_shared_library E dll_path s)) = proc_handle s
     \<and> process_id (snd (inject_shared_library E dll_path s)) = process_id s"
  by (simp add: inject_shared_library_def inject_shared_library_try_def encode_ascii_def Let_def
      log_exceptions_fst)

theorem inject_non_ascii_witness:
  "path_exists (script_env [[100, 233]]) [100, 233] (os_world (attached 7 [Reply 1 NoOut]))
   \<and> \<not> is_ascii [100, 233]
   \<and> fst (inject_shared_library (script_env [[100, 233]]) [100, 233] (attached 7 [Reply 1 NoOut]))
       = Inl (KeyError (UnicodeEncodeError [100, 233] 1))
   \<and> calls (snd (inject_shared_library (script_env [[100, 233]]) [100, 233]
        (attached 7 [Reply 1 NoOut]))) = []"
  using inject_non_ascii [where E = "script_env [[100, 233]]" and dll_path = "[100, 233]"
      and s = "attached 7 [Reply 1 NoOut]"]
  by (simp add: is_ascii_def first_non_ascii_def)

section \<open>Remote buffers\<close>

lemma write_to_memory_handle [simp]:
  "proc_handle (snd (write_to_memory E a d s)) = proc_handle s"
  by (simp add: write_to_memory_def case_prod_beta Let_def)

lemma allocate_remote_buffer_handle [simp]:
  "proc_handle (snd (allocate_remote_buffer E d n s)) = proc_handle s"
  by (simp add: allocate_remote_buffer_def case_prod_beta Let_def split: sum.splits)

lemma release_remote_buffer_handle [simp]:
  "proc_handle (snd (release_remote_buffer E a n s)) = proc_handle s"
  by (simp add: release_remote_buffer_def case_prod_beta Let_def split: sum.splits)

lemma run_remote_function_try_handle [simp]:
  "proc_handle (snd (run_remote_function_try E a p s)) = proc_handle s"
  by (simp add: run_remote_function_try_def case_prod_beta Let_def split: sum.splits)

lemma allocate_remote_buffer_calls:
  "\<exists>cs. calls (snd (allocate_remote_buffer E d n s)) = calls s @ cs
        \<and> \<not> made is_CloseHandle cs
        \<and> (\<forall>h a b t. (CreateRemoteThread h None None a b None None, t) \<notin> set cs)"
  by (simp add: allocate_remote_buffer_def write_to_memory_def case_prod_beta Let_def
      split: sum.splits)

lemma allocate_remote_buffer_address:
  "fst (allocate_remote_buffer E d n s) = Inr p \<Longrightarrow> c_long p = p \<and> in_c_range p"
  by (auto simp add: allocate_remote_buffer_def case_prod_beta Let_def
      split: sum.splits if_splits)

lemma release_remote_buffer_calls:
  "printable E n \<Longrightarrow> in_c_range p \<Longrightarrow>
   \<exists>r cs. calls (snd (release_remote_buffer E p n s))
            = calls s @ (VirtualFreeEx (proc_handle s) p (c_int 0) FREE_MEM, r) # cs
        \<and> \<not> made is_CloseHandle cs
        \<and> (\<forall>h a b t. (CreateRemoteThread h None None a b None None, t) \<notin> set cs)"
  by (simp add: release_remote_buffer_def case_prod_beta Let_def)

lemma run_remote_function_try_calls:
  "\<exists>t cs. calls (snd (run_remote_function_try E addr p s))
            = calls s @ (CreateRemoteThread (proc_handle s) None None (c_long addr) (c_long p) None None, t) # cs
        \<and> \<not> made is_CloseHandle cs
        \<and> (\<forall>h a b t. (CreateRemoteThread h None None a b None None, t) \<notin> set cs)
        \<and> (ret t \<noteq> 0 \<longrightarrow> (\<exists>w. (WaitForSingleObject (py_int t) 0xFFFFFFFF, w) \<in> set cs))"
  by (simp add: run_remote_function_try_def case_prod_beta Let_def)

lemma allocate_remote_buffer_success:
  assumes "fst (allocate_remote_buffer E b n s) = Inr address"
  shows "\<exists>a. address = py_int a
     \<and> printable E (int (length b)) \<and> in_c_range (int (length b))
     \<and> ret (fst (kernel32 E (WriteProcessMemory (proc_handle s) address b (int (length b)) None)
                  (snd (kernel32 E (VirtualAllocEx (proc_handle s) None (c_int n) MEM_FLAGS
                                      RWX_PERMISSIONS) (os_world s))))) \<noteq> 0
     \<and> os_world (snd (allocate_remote_buffer E b n s))
         = snd (kernel32 E (WriteProcessMemory (proc_handle s) address b (int (length b)) None)
                  (snd (kernel32 E (VirtualAllocEx (proc_handle s) None (c_int n) MEM_FLAGS
                                      RWX_PERMISSIONS) (os_world s))))"
  using assms
  by (auto simp add: allocate_remote_buffer_def write_to_memory_def case_prod_beta Let_def
      split: sum.splits if_splits)

text \<open>
  Claim C1 asks that the region is released when the write into it fails. Here
  \<^verbatim>\<open>VirtualAllocEx\<close> returns the address 0x1000, \<^verbatim>\<open>WriteProcessMemory\<close> returns 0 and
  \<^verbatim>\<open>GetLastError\<close> returns 5: \<^verbatim>\<open>allocate_remote_buffer\<close> fails after these three calls, without
  any \<^verbatim>\<open>VirtualFreeEx\<close>. Its caller \<^verbatim>\<open>run_remote_function\<close> allocates before its \<^verbatim>\<open>try\<close>
  block, so it does not release the region either. The \<^verbatim>\<open>DLLInjectionError\<close> of
  \<^verbatim>\<open>write_to_memory\<close> passes two decorators: what leaves \<^verbatim>\<open>allocate_remote_buffer\<close> is a
  \<^verbatim>\<open>KeyError\<close> whose context is a \<^verbatim>\<open>KeyError\<close> whose context is that error.
\<close>

theorem allocate_leaks_on_write_failure:
  "fst (allocate_remote_buffer (script_env []) [1, 2, 3] 3
         (attached 7 [Reply 0x1000 NoOut, Reply 0 NoOut, Reply 5 NoOut]))
     = Inl (KeyError (KeyError (DLLInjectionError
             [Lit ''Failed to write to memory at 0x'', Hex08 0x1000,
              Lit '' (Error: '', Dec 5, Lit '')''])))
   \<and> calls (snd (allocate_remote_buffer (script_env []) [1, 2, 3] 3
         (attached 7 [Reply 0x1000 NoOut, Reply 0 NoOut, Reply 5 NoOut])))
     = [(VirtualAllocEx (Some 7) None 3 0x3000 0x40, Reply 0x1000 NoOut),
        (WriteProcessMemory (Some 7) 0x1000 [1, 2, 3] 3 None, Reply 0 NoOut),
        (GetLastError, Reply 5 NoOut)]
   \<and> \<not> made is_VirtualFreeEx (calls (snd (allocate_remote_buffer (script_env []) [1, 2, 3] 3
         (attached 7 [Reply 0x1000 NoOut, Reply 0 NoOut, Reply 5 NoOut]))))
   \<and> calls (snd (run_remote_function (script_env []) 0x7000 [1, 2, 3]
         (attached 7 [Reply 0x1000 NoOut, Reply 0 NoOut, Reply 5 NoOut])))
     = [(VirtualAllocEx (Some 7) None 3 0x3000 0x40, Reply 0x1000 NoOut),
        (WriteProcessMemory (Some 7) 0x1000 [1, 2, 3] 3 None, Reply 0 NoOut),
        (GetLastError, Reply 5 NoOut)]"
  by (simp add: run_defs)

text \<open>
  Claim C7. Let the operating system be such that, after a \<^verbatim>\<open>WriteProcessMemory\<close> of the
  bytes \<open>d\<close> that returned non-zero, a \<^verbatim>\<open>ReadProcessMemory\<close> of \<open>length d\<close> bytes with the
  same handle at the same address returns non-zero and stores \<open>d\<close> in the buffer. Then for
  every buffer \<open>b\<close>, after \<^verbatim>\<open>allocate_remote_buffer(b, n)\<close> has returned an address,
  \<^verbatim>\<open>read_memory_region\<close> at that address with length \<^verbatim>\<open>len(b)\<close> returns exactly \<open>b\<close>.
\<close>

theorem write_read_round_trip:
  assumes law: "\<And>h a d w.
      ret (fst (kernel32 E (WriteProcessMemory h a d (int (length d)) None) w)) \<noteq> 0 \<Longrightarrow>
      ret (fst (kernel32 E (ReadProcessMemory h a (int (length d)) None)
                 (snd (kernel32 E (WriteProcessMemory h a d (int (length d)) None) w)))) \<noteq> 0
      \<and> out (fst (kernel32 E (ReadProcessMemory h a (int (length d)) None)
                 (snd (kernel32 E (WriteProcessMemory h a d (int (length d)) None) w))))
          = OutBuf d"
    and ok: "fst (allocate_remote_buffer E b n s) = Inr address"
  shows "fst (read_memory_region E address (int (length b))
                (snd (allocate_remote_buffer E b n s))) = Inr b"
proof -
  let ?w1 = "snd (kernel32 E (VirtualAllocEx (proc_handle s) None (c_int n) MEM_FLAGS
                                RWX_PERMISSIONS) (os_world s))"
  let ?wr = "WriteProcessMemory (proc_handle s) address b (int (length b)) None"
  from allocate_remote_buffer_success [OF ok]
  obtain a where a: "address = py_int a"
    and p: "printable E (int (length b))" "in_c_range (int (length b))"
    and w: "ret (fst (kernel32 E ?wr ?w1)) \<noteq> 0"
    and s': "os_world (snd (allocate_remote_buffer E b n s)) = snd (kernel32 E ?wr ?w1)"
    by blast
  from law [OF w]
  have r: "ret (fst (kernel32 E (ReadProcessMemory (proc_handle s) address (int (length b)) None)
                 (snd (kernel32 E ?wr ?w1)))) \<noteq> 0"
    and o: "out (fst (kernel32 E (ReadProcessMemory (proc_handle s) address (int (length b)) None)
                 (snd (kernel32 E ?wr ?w1)))) = OutBuf b"
    by simp_all
  have c: "c_long address = address"
    by (simp add: a)
  show ?thesis
    using r o p
    by (simp add: read_memory_region_def create_string_buffer_def stored_def case_prod_beta
        Let_def s' c)
qed

theorem write_read_round_trip_witness:
  "fst (allocate_remote_buffer memory_env [1, 2, 3] 3 (attached 7 [])) = Inr 0x10000
   \<and> fst (read_memory_region memory_env 0x10000 (int (length [1, 2, 3 :: 8 word]))
           (snd (allocate_remote_buffer memory_env [1, 2, 3] 3 (attached 7 []))))
       = Inr [1, 2, 3]"
proof -
  have law: "ret (fst (kernel32 memory_env (WriteProcessMemory h a d (int (length d)) None) w)) \<noteq> 0 \<Longrightarrow>
      ret (fst (kernel32 memory_env (ReadProcessMemory h a (int (length d)) None)
                 (snd (kernel32 memory_env (WriteProcessMemory h a d (int (length d)) None) w)))) \<noteq> 0
      \<and> out (fst (kernel32 memory_env (ReadProcessMemory h a (int (length d)) None)
                 (snd (kernel32 memory_env (WriteProcessMemory h a d (int (length d)) None) w))))
          = OutBuf d" for h a d w
    by simp
  have ok: "fst (allocate_remote_buffer memory_env [1, 2, 3] 3 (attached 7 [])) = Inr 0x10000"
    by (simp add: allocate_remote_buffer_def write_to_memory_def case_prod_beta Let_def py_int_def
        log_exceptions_fst in_c_range_def)
  show ?thesis
    using write_read_round_trip [of memory_env, OF law ok] ok by simp
qed

section \<open>Releasing a remote buffer\<close>

lemma too_long_not_printable: "max_str_digits E \<noteq> 0 \<Longrightarrow> \<not> printable E (too_long E)"
  by (simp add: printable_def too_long_def power_abs [symmetric])

lemma too_long_script: "too_long (script_env fs) = 10 ^ 4300"
proof -
  have m: "max (max_str_digits (script_env fs)) 640 = 4300"
    by simp
  show ?thesis
    unfolding too_long_def m ..
qed

text \<open>
  Claim C10 says that any two lengths give the same outcome. With Python's default digit
  limit, the length 3 lets \<^verbatim>\<open>release_remote_buffer\<close> call \<^verbatim>\<open>VirtualFreeEx\<close> and return, while
  the length \<open>10 ^ 4300\<close> makes the debug message raise \<^verbatim>\<open>ValueError\<close> before anything is
  called.
\<close>

theorem release_length_counterexample:
  "too_long (script_env []) = 10 ^ 4300
   \<and> fst (release_remote_buffer (script_env []) 0x1000 3 (attached 7 [Reply 1 NoOut])) = Inr ()
   \<and> calls (snd (release_remote_buffer (script_env []) 0x1000 3 (attached 7 [Reply 1 NoOut])))
       = [(VirtualFreeEx (Some 7) 0x1000 0 0x8000, Reply 1 NoOut)]
   \<and> fst (release_remote_buffer (script_env []) 0x1000 (too_long (script_env []))
            (attached 7 [Reply 1 NoOut]))
       = Inl (KeyError (ValueError [DigitsText 4300]))
   \<and> calls (snd (release_remote_buffer (script_env []) 0x1000 (too_long (script_env []))
            (attached 7 [Reply 1 NoOut]))) = []"
proof -
  have np: "\<not> printable (script_env []) (too_long (script_env []))"
    by (rule too_long_not_printable) simp
  have a: "fst (release_remote_buffer (script_env []) 0x1000 3 (attached 7 [Reply 1 NoOut]))
          = Inr ()"
    "calls (snd (release_remote_buffer (script_env []) 0x1000 3 (attached 7 [Reply 1 NoOut])))
       = [(VirtualFreeEx (Some 7) 0x1000 0 0x8000, Reply 1 NoOut)]"
    by (simp_all add: release_remote_buffer_def case_prod_beta Let_def in_c_range_def c_int_def
        FREE_MEM_def)
  have b: "fst (release_remote_buffer (script_env []) 0x1000 (too_long (script_env []))
            (attached 7 [Reply 1 NoOut]))
       = Inl (KeyError (ValueError [DigitsText 4300]))"
    "calls (snd (release_remote_buffer (script_env []) 0x1000 (too_long (script_env []))
            (attached 7 [Reply 1 NoOut]))) = []"
    using np by (simp_all add: release_remote_buffer_def log_exceptions_fst digits_error_def)
  from too_long_script [of "[]"] a b show ?thesis
    by (intro conjI)
qed

text \<open>
  Claim C10, amended. For every address and any two lengths that can be printed in
  decimal, the two runs of \<^verbatim>\<open>release_remote_buffer\<close> return or raise the same thing, make
  the same kernel32 calls with the same replies and leave the operating system and the
  handle in the same state. When the address is in the range of ctypes, the first call is
  \<^verbatim>\<open>VirtualFreeEx\<close> on the handle and the address, with size \<^verbatim>\<open>c_int(0)\<close>, which is 0, and the
  flag \<^verbatim>\<open>MEM_RELEASE\<close> (0x8000); outside that range no call is made and both runs raise
  \<^verbatim>\<open>ArgumentError\<close> (under the \<^verbatim>\<open>KeyError\<close> of the decorator). The length only appears in the
  debug message.
\<close>

theorem release_independent_of_length:
  assumes "printable E len1" and "printable E len2"
  shows "fst (release_remote_buffer E addr len1 s) = fst (release_remote_buffer E addr len2 s)
   \<and> calls (snd (release_remote_buffer E addr len1 s))
       = calls (snd (release_remote_buffer E addr len2 s))
   \<and> os_world (snd (release_remote_buffer E addr len1 s))
       = os_world (snd (release_remote_buffer E addr len2 s))
   \<and> proc_handle (snd (release_remote_buffer E addr len1 s)) = proc_handle s
   \<and> (if in_c_range addr
       then (\<exists>r. hd (new_calls s (snd (release_remote_buffer E addr len1 s)))
                  = (VirtualFreeEx (proc_handle s) addr (c_int 0) FREE_MEM, r))
       else new_calls s (snd (release_remote_buffer E addr len1 s)) = []
            \<and> fst (release_remote_buffer E addr len1 s) = Inl (KeyError (ArgumentError 2)))
   \<and> c_int 0 = 0 \<and> FREE_MEM = 0x8000
   \<and> hd (logs (snd (release_remote_buffer E addr len1 (s\<lparr>logs := []\<rparr>))))
       = (Logger, DEBUG, [Lit ''Releasing remote buffer at 0x'', Hex08 addr, Lit '' ('',
            Dec len1, Lit '' bytes)''])"
  using assms
  by (simp add: release_remote_buffer_def case_prod_beta Let_def new_calls_def c_int_def
      FREE_MEM_def log_exceptions_fst log_def)

theorem release_independent_of_length_witness:
  "printable (script_env []) 3 \<and> printable (script_env []) 500 \<and> in_c_range 0x1000
   \<and> fst (release_remote_buffer (script_env []) 0x1000 3 (attached 7 [Reply 0 NoOut, Reply 87 NoOut]))
       = fst (release_remote_buffer (script_env []) 0x1000 500
               (attached 7 [Reply 0 NoOut, Reply 87 NoOut]))
   \<and> calls (snd (release_remote_buffer (script_env []) 0x1000 3
               (attached 7 [Reply 0 NoOut, Reply 87 NoOut])))
       = calls (snd (release_remote_buffer (script_env []) 0x1000 500
               (attached 7 [Reply 0 NoOut, Reply 87 NoOut])))
   \<and> calls (snd (release_remote_buffer (script_env []) 0x1000 500
               (attached 7 [Reply 0 NoOut, Reply 87 NoOut])))
       = [(VirtualFreeEx (Some 7) 0x1000 0 0x8000, Reply 0 NoOut), (GetLastError, Reply 87 NoOut)]"
proof -
  have p: "printable (script_env []) 3" "printable (script_env []) 500" "in_c_range 0x1000"
    by (simp_all add: in_c_range_def)
  have c: "calls (snd (release_remote_buffer (script_env []) 0x1000 500
               (attached 7 [Reply 0 NoOut, Reply 87 NoOut])))
       = [(VirtualFreeEx (Some 7) 0x1000 0 0x8000, Reply 0 NoOut), (GetLastError, Reply 87 NoOut)]"
    by (simp add: release_remote_buffer_def case_prod_beta Let_def in_c_range_def c_int_def
        FREE_MEM_def)
  show ?thesis
    using release_independent_of_length [OF p(1,2), where addr = "0x1000"
        and s = "attached 7 [Reply 0 NoOut, Reply 87 NoOut]"] p c
    by simp
qed

section \<open>Running a remote function\<close>

text \<open>
  Claim C2 says that the thread handle is closed before \<^verbatim>\<open>run_remote_function\<close> returns.
  On the success path below the thread 0x44 is created, waited for and its exit code 42
  returned; the six calls made contain no \<^verbatim>\<open>CloseHandle\<close>.
\<close>

theorem run_remote_function_counterexample:
  "fst (run_remote_function (script_env []) 0x7000 [1, 2]
         (attached 7 [Reply 0x1000 NoOut, Reply 1 NoOut, Reply 0x44 NoOut, Reply 0 NoOut,
                      Reply 1 (OutLong 42), Reply 1 NoOut])) = Inr 42
   \<and> calls (snd (run_remote_function (script_env []) 0x7000 [1, 2]
         (attached 7 [Reply 0x1000 NoOut, Reply 1 NoOut, Reply 0x44 NoOut, Reply 0 NoOut,
                      Reply 1 (OutLong 42), Reply 1 NoOut])))
     = [(VirtualAllocEx (Some 7) None 2 0x3000 0x40, Reply 0x1000 NoOut),
        (WriteProcessMemory (Some 7) 0x1000 [1, 2] 2 None, Reply 1 NoOut),
        (CreateRemoteThread (Some 7) None None 0x7000 0x1000 None None, Reply 0x44 NoOut),
        (WaitForSingleObject 0x44 0xFFFFFFFF, Reply 0 NoOut),
        (GetExitCodeThread 0x44, Reply 1 (OutLong 42)),
        (VirtualFreeEx (Some 7) 0x1000 0 0x8000, Reply 1 NoOut)]
   \<and> \<not> made is_CloseHandle (calls (snd (run_remote_function (script_env []) 0x7000 [1, 2]
         (attached 7 [Reply 0x1000 NoOut, Reply 1 NoOut, Reply 0x44 NoOut, Reply 0 NoOut,
                      Reply 1 (OutLong 42), Reply 1 NoOut]))))"
  by (simp add: run_defs)

text \<open>
  Claim C2, amended. \<^verbatim>\<open>run_remote_function\<close> never calls \<^verbatim>\<open>CloseHandle\<close>, so the thread
  handle is not closed on any path. Once \<^verbatim>\<open>CreateRemoteThread\<close> has returned a non-zero
  thread handle, the thread is waited for (\<^verbatim>\<open>WaitForSingleObject\<close> on that handle, without
  time limit) and the argument buffer passed to the thread is released with
  \<^verbatim>\<open>VirtualFreeEx\<close> before the call returns, on the success path and on every failure path.
\<close>

theorem run_remote_function_thread_handle:
  "\<not> made is_CloseHandle (new_calls s (snd (run_remote_function E addr arg_data s)))
   \<and> (\<forall>h a p t.
        (CreateRemoteThread h None None a p None None, t)
          \<in> set (new_calls s (snd (run_remote_function E addr arg_data s)))
        \<longrightarrow> ret t \<noteq> 0
        \<longrightarrow> (\<exists>w. (WaitForSingleObject (py_int t) 0xFFFFFFFF, w)
                    \<in> set (new_calls s (snd (run_remote_function E addr arg_data s))))
            \<and> (\<exists>f. (VirtualFreeEx (proc_handle s) p (c_int 0) FREE_MEM, f)
                    \<in> set (new_calls s (snd (run_remote_function E addr arg_data s)))))"
proof (cases "printable E (int (length arg_data))")
  case False
  then have "snd (run_remote_function E addr arg_data s) = s"
    by (simp add: run_remote_function_def)
  then show ?thesis
    by simp
next
  case pr: True
  define s1 where "s1 = log Logger DEBUG
                [Lit ''Executing remote function at 0x'', Hex08 addr, Lit '' with '',
                 Dec (int (length arg_data)), Lit '' bytes of arguments''] s"
  define A where "A = allocate_remote_buffer E arg_data (int (length arg_data)) s1"
  have s1: "calls s1 = calls s" "proc_handle s1 = proc_handle s"
    by (simp_all add: s1_def)
  obtain as where as: "calls (snd A) = calls s @ as" "\<not> made is_CloseHandle as"
    "\<And>h a b t. (CreateRemoteThread h None None a b None None, t) \<notin> set as"
    using allocate_remote_buffer_calls [of E arg_data "int (length arg_data)" s1]
    unfolding A_def s1 by blast
  have hA: "proc_handle (snd A) = proc_handle s"
    by (simp add: A_def s1)
  show ?thesis
  proof (cases "fst A")
    case (Inl e)
    then have "calls (snd (run_remote_function E addr arg_data s)) = calls (snd A)"
      using pr by (simp add: run_remote_function_def A_def s1_def Let_def case_prod_beta)
    then have "new_calls s (snd (run_remote_function E addr arg_data s)) = as"
      using as(1) by (simp add: new_calls_def)
    then show ?thesis
      using as(2,3) by simp
  next
    case (Inr p)
    define T where "T = run_remote_function_try E addr p (snd A)"
    define R where "R = release_remote_buffer E p (int (length arg_data)) (snd T)"
    have p: "c_long p = p" "in_c_range p"
      using Inr allocate_remote_buffer_address unfolding A_def by blast+
    obtain t ts where ts: "calls (snd T) = calls (snd A)
          @ (CreateRemoteThread (proc_handle s) None None (c_long addr) p None None, t) # ts"
      "\<not> made is_CloseHandle ts"
      "\<And>h a b t. (CreateRemoteThread h None None a b None None, t) \<notin> set ts"
      "ret t \<noteq> 0 \<longrightarrow> (\<exists>w. (WaitForSingleObject (py_int t) 0xFFFFFFFF, w) \<in> set ts)"
      using run_remote_function_try_calls [of E addr p "snd A"]
      unfolding T_def [symmetric] hA p by blast
    have hT: "proc_handle (snd T) = proc_handle s"
      by (simp add: T_def hA)
    obtain f fs where fs: "calls (snd R) = calls (snd T)
          @ (VirtualFreeEx (proc_handle s) p (c_int 0) FREE_MEM, f) # fs"
      "\<not> made is_CloseHandle fs"
      "\<And>h a b t. (CreateRemoteThread h None None a b None None, t) \<notin> set fs"
      using release_remote_buffer_calls [OF pr p(2), of "snd T"]
      unfolding R_def [symmetric] hT by blast
    have "calls (snd (run_remote_function E addr arg_data s)) = calls (snd R)"
      using Inr pr
      by (simp add: run_remote_function_def A_def s1_def R_def T_def Let_def case_prod_beta)
    then have new: "new_calls s (snd (run_remote_function E addr arg_data s))
        = as @ (CreateRemoteThread (proc_handle s) None None (c_long addr) p None None, t) # ts
           @ (VirtualFreeEx (proc_handle s) p (c_int 0) FREE_MEM, f) # fs"
      using as(1) ts(1) fs(1) by (simp add: new_calls_def)
    show ?thesis
      unfolding new using as(2,3) ts(2,3,4) fs(2,3) by auto
  qed
qed

theorem run_remote_function_thread_handle_witness:
  "(CreateRemoteThread (Some 7) None None 0x7000 0x1000 None None, Reply 0x44 NoOut)
     \<in> set (new_calls
         (attached 7 [Reply 0x1000 NoOut, Reply 1 NoOut, Reply 0x44 NoOut, Reply 0 NoOut,
                      Reply 1 (OutLong 42), Reply 1 NoOut])
         (snd (run_remote_function (script_env []) 0x7000 [1, 2]
         (attached 7 [Reply 0x1000 NoOut, Reply 1 NoOut, Reply 0x44 NoOut, Reply 0 NoOut,
                      Reply 1 (OutLong 42), Reply 1 NoOut]))))
   \<and> ret (Reply 0x44 NoOut) \<noteq> 0
   \<and> (\<exists>w. (WaitForSingleObject (py_int (Reply 0x44 NoOut)) 0xFFFFFFFF, w)
     \<in> set (new_calls
         (attached 7 [Reply 0x1000 NoOut, Reply 1 NoOut, Reply 0x44 NoOut, Reply 0 NoOut,
                      Reply 1 (OutLong 42), Reply 1 NoOut])
         (snd (run_remote_function (script_env []) 0x7000 [1, 2]
         (attached 7 [Reply 0x1000 NoOut, Reply 1 NoOut, Reply 0x44 NoOut, Reply 0 NoOut,
                      Reply 1 (OutLong 42), Reply 1 NoOut])))))
   \<and> (\<exists>f. (VirtualFreeEx (Some 7) 0x1000 (c_int 0) FREE_MEM, f)
     \<in> set (new_calls
         (attached 7 [Reply 0x1000 NoOut, Reply 1 NoOut, Reply 0x44 NoOut, Reply 0 NoOut,
                      Reply 1 (OutLong 42), Reply 1 NoOut])
         (snd (run_remote_function (script_env []) 0x7000 [1, 2]
         (attached 7 [Reply 0x1000 NoOut, Reply 1 NoOut, Reply 0x44 NoOut, Reply 0 NoOut,
                      Reply 1 (OutLong 42), Reply 1 NoOut])))))"
proof -
  let ?s = "attached 7 [Reply 0x1000 NoOut, Reply 1 NoOut, Reply 0x44 NoOut, Reply 0 NoOut,
                      Reply 1 (OutLong 42), Reply 1 NoOut]"
  have m: "(CreateRemoteThread (Some 7) None None 0x7000 0x1000 None None, Reply 0x44 NoOut)
     \<in> set (new_calls ?s (snd (run_remote_function (script_env []) 0x7000 [1, 2] ?s)))"
    by (simp add: run_defs new_calls_def)
  have r: "ret (Reply 0x44 NoOut) \<noteq> 0"
    by simp
  show ?thesis
    using run_remote_function_thread_handle [of ?s "script_env []" "0x7000" "[1, 2]",
        THEN conjunct2, rule_format, OF m r] m r
    by simp
qed

section \<open>Resolving the offset of a function\<close>





end
